theory Spec2Isabelle
  imports Main "HOL-Library.Word"
begin

unbundle bit_operations_syntax

section \<open>RateLimiter\<close>

text \<open>
  The usage counter is a Python dict read from \<open>usage_counter.json\<close>. Its three keys are
  looked up with \<open>.get\<close>, so each of them may be absent: every field is an option.
  An entry of the history is the dict \<open>{"date": ..., "count": ...}\<close>.
\<close>

record day_entry =
  entry_date :: string
  entry_count :: int

record usage_data =
  date :: "string option"
  count :: "int option"
  history :: "day_entry list option"

text \<open>
  The limiter object: \<open>daily_limit\<close> and \<open>usage_data\<close> are the attributes of the class.
  \<open>usage_file\<close> is the content of the file on disk (\<open>None\<close>: no file), and \<open>disk_ok\<close> says
  whether opening and writing the file works: \<open>_save\<close> catches every exception of the write
  and only logs it. Log calls change nothing that is modelled here and are left out.
\<close>

record rate_limiter =
  daily_limit :: int
  usage_data :: usage_data
  usage_file :: "usage_data option"
  disk_ok :: bool

definition save_usage :: "rate_limiter \<Rightarrow> rate_limiter" where
  "save_usage rl = (if disk_ok rl then rl\<lparr>usage_file := Some (usage_data rl)\<rparr> else rl)"

text \<open>\<open>d.get("count", 0)\<close> and \<open>d.get("history", [])\<close>.\<close>

definition get_count :: "usage_data \<Rightarrow> int" where
  "get_count ud = (case count ud of None \<Rightarrow> 0 | Some c \<Rightarrow> c)"

definition get_history :: "usage_data \<Rightarrow> day_entry list" where
  "get_history ud = (case history ud of None \<Rightarrow> [] | Some h \<Rightarrow> h)"

text \<open>Truth value of \<open>d.get("date")\<close>: a string that is present and not empty.\<close>

definition date_truthy :: "usage_data \<Rightarrow> bool" where
  "date_truthy ud = (case date ud of None \<Rightarrow> False | Some d \<Rightarrow> d \<noteq> [])"

text \<open>The slice \<open>xs[-n:]\<close> for a positive \<open>n\<close>: the last \<open>n\<close> elements, or all of a shorter list.\<close>

definition last_n :: "nat \<Rightarrow> 'a list \<Rightarrow> 'a list" where
  "last_n n xs = (if length xs \<le> n then xs else drop (length xs - n) xs)"

text \<open>
  \<open>_reset_if_new_day\<close>; the argument \<open>today\<close> is what \<open>_get_today()\<close> returns at the call.
  Inside the inner \<open>if\<close> both \<open>usage_data["date"]\<close> and \<open>usage_data["count"]\<close> exist, because
  the guard has just found them truthy and positive.
\<close>

definition reset_if_new_day :: "string \<Rightarrow> rate_limiter \<Rightarrow> rate_limiter" where
  "reset_if_new_day today rl =
     (let ud = usage_data rl in
      if date ud \<noteq> Some today then
        let ud1 = (if date_truthy ud \<and> get_count ud > 0
                   then ud\<lparr>history := Some (last_n 30
                          (get_history ud @ [\<lparr>entry_date = the (date ud), entry_count = get_count ud\<rparr>]))\<rparr>
                   else ud);
            ud2 = ud1\<lparr>date := Some today, count := Some 0\<rparr>
        in save_usage (rl\<lparr>usage_data := ud2\<rparr>)
      else rl)"

definition can_make_request :: "string \<Rightarrow> rate_limiter \<Rightarrow> (bool \<times> int \<times> int) \<times> rate_limiter" where
  "can_make_request today rl =
     (if daily_limit rl \<le> 0 then ((True, 0, 0), rl)
      else
        let rl' = reset_if_new_day today rl;
            used = get_count (usage_data rl')
        in ((used < daily_limit rl', used, daily_limit rl'), rl'))"

definition record_request :: "string \<Rightarrow> rate_limiter \<Rightarrow> rate_limiter" where
  "record_request today rl =
     (let rl1 = reset_if_new_day today rl;
          rl2 = rl1\<lparr>usage_data := (usage_data rl1)\<lparr>count := Some (get_count (usage_data rl1) + 1)\<rparr>\<rparr>
      in save_usage rl2)"

record usage_stats =
  stats_date :: string
  stats_used :: int
  stats_limit :: int
  stats_remaining :: int
  stats_history :: "day_entry list"

definition get_usage_stats :: "string \<Rightarrow> rate_limiter \<Rightarrow> usage_stats \<times> rate_limiter" where
  "get_usage_stats today rl =
     (let rl' = reset_if_new_day today rl;
          used = get_count (usage_data rl')
      in (\<lparr>stats_date = today, stats_used = used, stats_limit = daily_limit rl',
           stats_remaining = (if daily_limit rl' > 0 then max 0 (daily_limit rl' - used) else - 1),
           stats_history = get_history (usage_data rl')\<rparr>, rl'))"

text \<open>\<open>n\<close> calls of \<open>record_request\<close>, all on the day \<open>today\<close>.\<close>

fun record_requests :: "nat \<Rightarrow> string \<Rightarrow> rate_limiter \<Rightarrow> rate_limiter" where
  "record_requests 0 today rl = rl"
| "record_requests (Suc n) today rl = record_requests n today (record_request today rl)"

text \<open>Two limiter objects used as concrete inputs below.\<close>

definition full_month_limiter :: rate_limiter where
  "full_month_limiter =
     \<lparr>daily_limit = 3,
      usage_data = \<lparr>date = Some ''2024-01-31'', count = Some 4,
                    history = Some (\<lparr>entry_date = ''2024-01-01'', entry_count = 7\<rparr> #
                      replicate 29 \<lparr>entry_date = ''2024-01-02'', entry_count = 1\<rparr>)\<rparr>,
      usage_file = None, disk_ok = True\<rparr>"

definition unlimited_limiter :: rate_limiter where
  "unlimited_limiter =
     \<lparr>daily_limit = 0,
      usage_data = \<lparr>date = Some ''2024-01-31'', count = Some 4, history = None\<rparr>,
      usage_file = None, disk_ok = True\<rparr>"

section \<open>Pixel encoding for the framebuffer\<close>

text \<open>
  A pixel of an RGB image as \<open>img.getdata()\<close> yields it: three 8-bit channels. A frame
  buffer image is the list of its pixels in that order, its encoding a list of bytes.
\<close>

type_synonym byte = "8 word"
type_synonym pixel = "byte \<times> byte \<times> byte"

text \<open>
  \<open>struct.pack('<H', v)\<close>: the two bytes of \<open>v\<close>, low byte first; \<open>struct.error\<close>
  (\<open>None\<close>) unless \<open>0 \<le> v \<le> 65535\<close>.
\<close>

definition pack_H :: "int \<Rightarrow> byte list option" where
  "pack_H v = (if 0 \<le> v \<and> v \<le> 65535
               then Some [word_of_int (v mod 256), word_of_int (v div 256)]
               else None)"

text \<open>
  The body of the loop of \<open>_convert_to_rgb565\<close>, on Python's unbounded integers:
  \<open>pixel = ((r >> 3) << 11) | ((g >> 2) << 5) | (b >> 3)\<close>.
\<close>

definition rgb565_pixel :: "pixel \<Rightarrow> int" where
  "rgb565_pixel p =
     (case p of (r, g, b) \<Rightarrow>
        push_bit 11 (drop_bit 3 (uint r)) OR push_bit 5 (drop_bit 2 (uint g)) OR drop_bit 3 (uint b))"

text \<open>The loop: \<open>raw\<close> collects the packed pixels, a failing \<open>struct.pack\<close> ends it.\<close>

fun rgb565_loop :: "pixel list \<Rightarrow> byte list list \<Rightarrow> byte list list option" where
  "rgb565_loop [] raw = Some raw"
| "rgb565_loop (p # pixels) raw =
     (case pack_H (rgb565_pixel p) of
        None \<Rightarrow> None
      | Some packed \<Rightarrow> rgb565_loop pixels (raw @ [packed]))"

definition convert_to_rgb565 :: "pixel list \<Rightarrow> byte list option" where
  "convert_to_rgb565 pixels = map_option concat (rgb565_loop pixels [])"

text \<open>
  The encoding as the specification words it: a 16-bit word holding red shifted right by 3
  in its top five bits, green shifted right by 2 in the middle six and blue shifted right
  by 3 in the low five, stored little-endian.
\<close>

definition rgb565_word :: "pixel \<Rightarrow> 16 word" where
  "rgb565_word p =
     (case p of (r, g, b) \<Rightarrow>
        push_bit 11 (ucast (drop_bit 3 r)) OR push_bit 5 (ucast (drop_bit 2 g)) OR ucast (drop_bit 3 b))"

definition little_endian16 :: "16 word \<Rightarrow> byte list" where
  "little_endian16 w = [ucast w, ucast (drop_bit 8 w)]"

definition rgb565_spec :: "pixel list \<Rightarrow> byte list" where
  "rgb565_spec pixels = concat (map (\<lambda>p. little_endian16 (rgb565_word p)) pixels)"

text \<open>The two other depths: \<open>(b, g, r, a)\<close> with the opaque alpha of \<open>convert('RGBA')\<close>, and \<open>(b, g, r)\<close>.\<close>

definition encode_bgra :: "pixel list \<Rightarrow> byte list" where
  "encode_bgra pixels = concat (map (\<lambda>(r, g, b). [b, g, r, 255]) pixels)"

definition encode_bgr :: "pixel list \<Rightarrow> byte list" where
  "encode_bgr pixels = concat (map (\<lambda>(r, g, b). [b, g, r]) pixels)"

section \<open>Effects and the RetroArch commander\<close>

text \<open>
  What the daemon does to the world is recorded as a list of effects, in the order the
  statements run. A message is either a literal text or one of the texts of the
  configuration (\<open>notification_limit_reached\<close> is formatted with \<open>used\<close> and \<open>limit\<close>).
\<close>

datatype message =
    Text string
  | NotificationLimitReached int int
  | NotificationGenerating
  | NotificationError
  | NotificationReady

datatype ra_command =
    SHOW_MSG message
  | SCREENSHOT
  | SAVE_STATE_SLOT int
  | SAVE_STATE
  | LOAD_STATE_SLOT int
  | LOAD_STATE
  | PAUSE_TOGGLE
  | GET_STATUS

text \<open>The targets of the threads the daemon starts.\<close>

datatype thread_target =
    OnRequest
  | OnView
  | ProcessHintRequest string string string

datatype effect =
    Send ra_command \<comment> \<open>\<open>RetroArchCommander.send\<close>\<close>
  | Run "string list" \<comment> \<open>\<open>subprocess.run\<close> that started the command\<close>
  | Popen "string list" \<comment> \<open>\<open>subprocess.Popen\<close> that started the command\<close>
  | Terminate \<comment> \<open>\<open>process.terminate()\<close>\<close>
  | WaitProcess nat \<comment> \<open>\<open>process.wait(timeout)\<close>, in seconds\<close>
  | Sleep nat \<comment> \<open>\<open>time.sleep\<close>, in milliseconds\<close>
  | WriteFramebuffer "byte list" \<comment> \<open>the bytes written to \<open>/dev/fb0\<close>\<close>
  | WaitForButtonPress nat \<comment> \<open>\<open>_wait_for_button_press(timeout)\<close>, in seconds\<close>
  | ClearPressedKeys \<comment> \<open>\<open>pressed_keys.clear()\<close>\<close>
  | StartThread thread_target \<comment> \<open>\<open>threading.Thread(target=...).start()\<close>\<close>
  | LogUsage string bool \<comment> \<open>\<open>log_usage(event_type, ..., success)\<close>\<close>

text \<open>An exception that leaves a function.\<close>

datatype error = FileNotFoundError | KeyError | UnicodeDecodeError | OtherError

text \<open>
  The methods of \<open>RetroArchCommander\<close>. \<open>send\<close> catches every exception of the socket, so
  none of them raises; what is recorded is the command handed to \<open>send\<close>.
\<close>

definition show_message :: "message \<Rightarrow> effect list" where
  "show_message m = [Send (SHOW_MSG m)]"

definition screenshot :: "effect list" where
  "screenshot = [Send SCREENSHOT]"



definition pause :: "effect list" where
  "pause = [Send PAUSE_TOGGLE]"

section \<open>HintViewer\<close>

text \<open>
  The outcome of starting an external command with \<open>subprocess.run\<close> or
  \<open>subprocess.Popen\<close>: it ran, the binary is missing (\<open>FileNotFoundError\<close>), or another
  exception was raised. Exit codes other than that of \<open>fgconsole\<close> are never read.
\<close>

datatype call = Done | NotFound | Failed


text \<open>\<open>fgconsole\<close>: raised, or exited with a return code and (stripped) standard output.\<close>

datatype fgconsole_result = FgRaised | FgExited int string

text \<open>\<open>subprocess.run(..., timeout=300)\<close> of \<open>fbi\<close> and \<open>feh\<close>.\<close>

datatype timed_run = RunFinished | RunTimeoutExpired | RunRaised

text \<open>\<open>process.wait(timeout=300)\<close>.\<close>

datatype process_wait = ProcessExited | ProcessTimeoutExpired

text \<open>Opening and writing \<open>/dev/fb0\<close>.\<close>

datatype fb_write_result = Written | PermissionDenied | WriteFailed

text \<open>
  How \<open>_wait_for_button_press\<close> ends, one outcome for each of its three \<open>return\<close>
  statements: an \<open>EV_KEY\<close> event with value 1 was read (\<open>True\<close>), the wall clock passed the
  timeout (\<open>False\<close>), or an exception of the device was caught (\<open>False\<close>). The loop itself
  is bounded by the wall clock and is not unfolded here.
\<close>

datatype wait_outcome = ButtonPressed | WaitTimedOut | WaitError

text \<open>
  Everything outside the process that one call of \<open>HintViewer.show\<close> reads, one field for
  each place of the source that asks:
  \<^item> \<open>fb_props\<close>: width, height and depth read from sysfs (\<open>None\<close>: reading or parsing raised);
  \<^item> \<open>canvas\<close>: the letterboxed RGB image of the hint at the size of the frame buffer
    (\<open>None\<close>: opening, resizing or pasting raised);
  \<^item> \<open>hint_text\<close>, \<open>hint_words\<close>: the companion text file (empty: missing or unreadable) and
    its \<open>split()\<close>;
  \<^item> \<open>stop_call\<close>, \<open>chvt_away_call\<close>, \<open>chvt_back_call\<close>, \<open>cont_call\<close>: \<open>pkill -STOP\<close>, the
    \<open>chvt\<close> to the display terminal, the \<open>chvt\<close> back and \<open>pkill -CONT\<close> on the normal path;
  \<^item> \<open>handler_cont_call\<close>: \<open>pkill -CONT\<close> in a handler of \<open>FileNotFoundError\<close>;
    \<open>cleanup_chvt_call\<close>, \<open>cleanup_cont_call\<close>: the two commands in a handler of \<open>Exception\<close>;
  \<^item> \<open>viewer_start\<close>, \<open>viewer_wait\<close>: the \<open>Popen\<close> of fbv or mpv and its \<open>wait\<close>;
    \<open>viewer_run\<close>, \<open>killall_call\<close>: the \<open>run\<close> of fbi or feh and the \<open>killall\<close> after its timeout;
  \<^item> \<open>fgconsole\<close>, \<open>fb_write\<close>, \<open>evdev_available\<close>, \<open>button_wait\<close>: as named.
\<close>

record display_env =
  fb_props :: "(int \<times> int \<times> int) option"
  fgconsole :: fgconsole_result
  stop_call :: call
  chvt_away_call :: call
  canvas :: "pixel list option"
  fb_write :: fb_write_result
  evdev_available :: bool
  button_wait :: wait_outcome
  chvt_back_call :: call
  cont_call :: call
  handler_cont_call :: call
  cleanup_chvt_call :: call
  cleanup_cont_call :: call
  viewer_start :: call
  viewer_wait :: process_wait
  viewer_run :: timed_run
  killall_call :: call
  hint_text :: string
  hint_words :: "string list"


definition pkill_STOP :: "string list" where
  "pkill_STOP = [''pkill'', ''-STOP'', ''retroarch'']"

definition pkill_CONT :: "string list" where
  "pkill_CONT = [''pkill'', ''-CONT'', ''retroarch'']"

definition chvt :: "string \<Rightarrow> string list" where
  "chvt vt = [''chvt'', vt]"

text \<open>The current virtual terminal, when \<open>fgconsole\<close> told it.\<close>

definition read_current_vt :: "display_env \<Rightarrow> string option \<times> effect list" where
  "read_current_vt env =
     (case fgconsole env of
        FgRaised \<Rightarrow> (None, [])
      | FgExited returncode out \<Rightarrow>
          (if returncode = 0 \<and> out \<noteq> [] then Some out else None, [Run [''fgconsole'']]))"

subsection \<open>The fallback: pause and on-screen text\<close>

text \<open>The loop that cuts the words into chunks of at most 120 characters.\<close>

fun osd_chunks :: "string list \<Rightarrow> string \<Rightarrow> string list \<Rightarrow> string list" where
  "osd_chunks [] current_chunk chunks =
     (if current_chunk \<noteq> [] then chunks @ [current_chunk] else chunks)"
| "osd_chunks (word # words) current_chunk chunks =
     (if length current_chunk + length word + 1 \<le> 120
      then osd_chunks words (if current_chunk \<noteq> [] then current_chunk @ '' '' @ word else word) chunks
      else osd_chunks words word (if current_chunk \<noteq> [] then chunks @ [current_chunk] else chunks))"

definition show_retroarch_pause :: "display_env \<Rightarrow> string \<Rightarrow> (error + bool) \<times> effect list" where
  "show_retroarch_pause env hint_path =
     (Inr True,
      pause @
      (if hint_text env \<noteq> []
       then concat (map (\<lambda>chunk. show_message (Text chunk) @ [Sleep 4000])
                     (osd_chunks (hint_words env) [] []))
            @ show_message (Text ''Press Start to unpause and continue'')
       else show_message (Text ''Hint ready - check ai-hints/current-hint.png''))
      @ [Sleep 2000])"

text \<open>\<open>return self._show_retroarch_pause(hint_path)\<close> after the effects \<open>done\<close>.\<close>

definition fall_back :: "effect list \<Rightarrow> display_env \<Rightarrow> string \<Rightarrow> (error + bool) \<times> effect list" where
  "fall_back done env hint_path =
     (fst (show_retroarch_pause env hint_path), done @ snd (show_retroarch_pause env hint_path))"

subsection \<open>Direct frame buffer\<close>

text \<open>Step 5 of \<open>_show_direct_fb\<close>: the image is prepared first, then encoded for the depth.\<close>

datatype prepared = Prepared "byte list" | UnsupportedDepth | PreparationFailed

definition prepare_image :: "display_env \<Rightarrow> int \<Rightarrow> prepared" where
  "prepare_image env fb_bpp =
     (case canvas env of
        None \<Rightarrow> PreparationFailed
      | Some pixels \<Rightarrow>
          if fb_bpp = 32 then Prepared (encode_bgra pixels)
          else if fb_bpp = 24 then Prepared (encode_bgr pixels)
          else if fb_bpp = 16 then
            (case convert_to_rgb565 pixels of
               None \<Rightarrow> PreparationFailed
             | Some raw_data \<Rightarrow> Prepared raw_data)
          else UnsupportedDepth)"

text \<open>
  The cleanup of the outer handler of \<open>_show_direct_fb\<close>: one \<open>try\<close> around both commands,
  so a \<open>chvt\<close> that raises skips the resume signal.
\<close>

definition cleanup_direct_fb :: "display_env \<Rightarrow> string option \<Rightarrow> bool \<Rightarrow> effect list" where
  "cleanup_direct_fb env current_vt retroarch_suspended =
     (let resume = (if retroarch_suspended \<and> cleanup_cont_call env = Done then [Run pkill_CONT] else [])
      in case current_vt of
           None \<Rightarrow> resume
         | Some vt \<Rightarrow> if cleanup_chvt_call env = Done then [Run (chvt vt)] @ resume else [])"

definition show_direct_fb :: "display_env \<Rightarrow> string \<Rightarrow> (error + bool) \<times> effect list" where
  "show_direct_fb env hint_path =
     (case fb_props env of
        None \<Rightarrow> fall_back [] env hint_path
      | Some (fb_width, fb_height, fb_bpp) \<Rightarrow>
          let current_vt = fst (read_current_vt env);
              retroarch_suspended = (stop_call env = Done);
              display_vt = (if current_vt \<noteq> Some ''1'' then ''1'' else ''3'');
              taken = snd (read_current_vt env)
                @ (if stop_call env = Done then [Run pkill_STOP, Sleep 300] else [])
                @ (if chvt_away_call env = Done then [Run (chvt display_vt), Sleep 500] else [])
          in (case prepare_image env fb_bpp of
               UnsupportedDepth \<Rightarrow> fall_back taken env hint_path
             | PreparationFailed \<Rightarrow> fall_back taken env hint_path
             | Prepared raw_data \<Rightarrow>
                 (case fb_write env of
                    PermissionDenied \<Rightarrow> fall_back taken env hint_path
                  | WriteFailed \<Rightarrow> fall_back taken env hint_path
                  | Written \<Rightarrow>
                      let shown = taken @ [WriteFramebuffer raw_data]
                            @ (if evdev_available env then [WaitForButtonPress 300] else [Sleep 10000])
                            @ (case current_vt of
                                 None \<Rightarrow> []
                               | Some vt \<Rightarrow>
                                   if chvt_back_call env = Done then [Run (chvt vt), Sleep 300] else [])
                      in if \<not> retroarch_suspended then (Inr True, shown)
                         else if cont_call env = Done then (Inr True, shown @ [Run pkill_CONT])
                         else fall_back (shown @ cleanup_direct_fb env current_vt retroarch_suspended)
                                env hint_path)))"

subsection \<open>fbv and mpv\<close>







subsection \<open>fbi and feh\<close>




subsection \<open>Dispatch\<close>


text \<open>
  An environment in which every command runs, the frame buffer is 2 by 1 at 32 bits per
  pixel, the console is on terminal 2 and the user presses a button. The concrete inputs
  below change single fields of it.
\<close>

definition working_env :: display_env where
  "working_env =
     \<lparr>fb_props = Some (2, 1, 32), fgconsole = FgExited 0 ''2'', stop_call = Done,
      chvt_away_call = Done, canvas = Some [(255, 0, 0), (0, 255, 0)], fb_write = Written,
      evdev_available = True, button_wait = ButtonPressed, chvt_back_call = Done,
      cont_call = Done, handler_cont_call = Done, cleanup_chvt_call = Done,
      cleanup_cont_call = Done, viewer_start = Done, viewer_wait = ProcessExited,
      viewer_run = RunFinished, killall_call = Done,
      hint_text = ''SNES - Game'', hint_words = [''SNES'', ''-'', ''Game'']\<rparr>"

section \<open>HotkeyListener\<close>

record hotkey_listener =
  request_combo :: "string set"
  view_combo :: "string set"
  pressed_keys :: "string set"

definition check_combos :: "hotkey_listener \<Rightarrow> hotkey_listener \<times> effect list" where
  "check_combos hl =
     (if request_combo hl \<subseteq> pressed_keys hl
      then (hl\<lparr>pressed_keys := {}\<rparr>, [ClearPressedKeys, StartThread OnRequest])
      else if view_combo hl \<subseteq> pressed_keys hl
      then (hl\<lparr>pressed_keys := {}\<rparr>, [ClearPressedKeys, StartThread OnView])
      else (hl, []))"

text \<open>
  The body of the loop of \<open>_listen_evdev\<close> for one \<open>EV_KEY\<close> event: \<open>btn_name\<close> is the
  configured button whose code the event carries (\<open>None\<close>: no such button), \<open>value\<close> is 1
  for a press, 0 for a release and 2 for a key repeat.
\<close>

definition key_event :: "string option \<Rightarrow> int \<Rightarrow> hotkey_listener \<Rightarrow> hotkey_listener \<times> effect list" where
  "key_event btn_name val hl =
     (case btn_name of
        None \<Rightarrow> (hl, [])
      | Some b \<Rightarrow>
          check_combos
            (if val = 1 then hl\<lparr>pressed_keys := insert b (pressed_keys hl)\<rparr>
             else if val = 0 then hl\<lparr>pressed_keys := pressed_keys hl - {b}\<rparr>
             else hl))"

section \<open>AIClient\<close>

text \<open>\<open>s.startswith(p)\<close>.\<close>

definition startswith :: "string \<Rightarrow> string \<Rightarrow> bool" where
  "startswith s p = (take (length p) s = p)"

text \<open>
  What the HTTP request of a provider call comes to: a decoded JSON result, an
  \<open>HTTPError\<close> (with the text of its code, and whether its body can be read and decoded:
  the handler decodes the body before it returns), or another exception with its text.
\<close>

datatype 'r http_result =
    Response 'r
  | HTTPError string bool
  | RequestRaised string

text \<open>
  Of the result of Anthropic only the \<open>content\<close> list and the \<open>text\<close> of its blocks are
  read, each possibly absent. In the result of OpenAI the path \<open>["message"]["content"]\<close> of
  a choice is indexed: a missing key raises \<open>KeyError\<close>, carried here with its text.
  \<open>screenshot_readable\<close> says whether opening and reading the screenshot file works,
  \<open>prompt_formatted\<close> whether \<open>prompt_template.format(system=..., game=...)\<close> does.
\<close>

datatype openai_choice = MessageContent string | MissingKey string

record hint_source_env =
  screenshot_readable :: bool
  prompt_formatted :: bool
  anthropic_reply :: "string option list option http_result"
  openai_reply :: "openai_choice list option http_result"

definition call_anthropic :: "hint_source_env \<Rightarrow> error + string" where
  "call_anthropic env =
     (case anthropic_reply env of
        Response result \<Rightarrow>
          (case result of
             None \<Rightarrow> Inr ''No hint generated.''
           | Some [] \<Rightarrow> Inr ''No hint generated.''
           | Some (block # _) \<Rightarrow>
               (case block of None \<Rightarrow> Inr ''No hint generated.'' | Some t \<Rightarrow> Inr t))
      | HTTPError code body_decodes \<Rightarrow>
          if body_decodes then Inr (''API Error: '' @ code) else Inl UnicodeDecodeError
      | RequestRaised e \<Rightarrow> Inr (''Error: '' @ e))"

definition call_openai :: "hint_source_env \<Rightarrow> error + string" where
  "call_openai env =
     (case openai_reply env of
        Response result \<Rightarrow>
          (case result of
             None \<Rightarrow> Inr ''No hint generated.''
           | Some [] \<Rightarrow> Inr ''No hint generated.''
           | Some (choice # _) \<Rightarrow>
               (case choice of MessageContent t \<Rightarrow> Inr t | MissingKey e \<Rightarrow> Inr (''Error: '' @ e)))
      | HTTPError code body_decodes \<Rightarrow>
          if body_decodes then Inr (''API Error: '' @ code) else Inl UnicodeDecodeError
      | RequestRaised e \<Rightarrow> Inr (''Error: '' @ e))"

text \<open>
  \<open>get_hint\<close>: reading the screenshot and formatting the prompt stand outside any \<open>try\<close>.
\<close>

definition get_hint :: "string \<Rightarrow> string \<Rightarrow> hint_source_env \<Rightarrow> error + string" where
  "get_hint api_key provider env =
     (if api_key = [] then Inr ''Error: No API key configured. Edit config.json to add your API key.''
      else if \<not> screenshot_readable env then Inl FileNotFoundError
      else if \<not> prompt_formatted env then Inl KeyError
      else if provider = ''anthropic'' then call_anthropic env
      else if provider = ''openai'' then call_openai env
      else Inr (''Error: Unknown API provider: '' @ provider))"

section \<open>HintSystem\<close>

record hint_system =
  processing :: bool
  hint_ready :: bool
  current_hint_path :: "string option"
  rate_limiter :: rate_limiter
  display_method :: string
  savestate_slot :: "int option"
  api_key :: string
  api_provider :: string

text \<open>
  What \<open>on_request_hint\<close> reads: the day at the rate check, the flags of the status
  RetroArch reports, the screenshot \<open>capture()\<close> finds and the labels
  \<open>GameInfoParser.parse\<close> derives from the status.
\<close>

record request_env =
  request_today :: string
  status_playing :: bool
  status_paused :: bool
  captured :: "string option"
  parsed_system :: string
  parsed_game :: string

definition on_request_hint :: "request_env \<Rightarrow> hint_system \<Rightarrow> hint_system \<times> effect list" where
  "on_request_hint env hs =
     (if processing hs then (hs, show_message (Text ''Already generating hint...''))
      else
        case can_make_request (request_today env) (rate_limiter hs) of
          ((allowed, used, lim), rl) \<Rightarrow>
            if \<not> allowed
            then (hs\<lparr>rate_limiter := rl\<rparr>,
                  show_message (NotificationLimitReached used lim) @ [LogUsage ''RATE_LIMITED'' False])
            else
              let hs1 = hs\<lparr>rate_limiter := rl, processing := True, hint_ready := False\<rparr>
              in if \<not> status_playing env \<and> \<not> status_paused env
                 then (hs1\<lparr>processing := False\<rparr>,
                       [Send GET_STATUS] @ show_message (Text ''No game running!''))
                 else
                   let begun = [Send GET_STATUS] @ show_message NotificationGenerating
                         @ screenshot @ [Sleep 500]
                   in (case captured env of
                         None \<Rightarrow> (hs1\<lparr>processing := False\<rparr>, begun @ show_message NotificationError)
                       | Some shot \<Rightarrow>
                           (hs1, begun @ [StartThread
                              (ProcessHintRequest shot (parsed_system env) (parsed_game env))])))"

text \<open>
  What the background thread reads: the hint source, the day at \<open>record_request\<close>, the path
  the renderer returns (\<open>None\<close>: it raised), whether archiving worked, and the day at the
  final \<open>get_usage_stats\<close>.
\<close>

record process_env =
  hint_source :: hint_source_env
  record_today :: string
  rendered :: "string option"
  archived :: bool
  stats_today :: string

text \<open>The handler of the outer \<open>try\<close> of \<open>_process_hint_request\<close>.\<close>

definition processing_error :: "hint_system \<Rightarrow> effect list \<Rightarrow> hint_system \<times> effect list" where
  "processing_error hs done =
     (hs\<lparr>processing := False\<rparr>,
      done @ [LogUsage ''PROCESSING_ERROR'' False] @ show_message NotificationError)"

definition process_hint_request :: "process_env \<Rightarrow> hint_system \<Rightarrow> hint_system \<times> effect list" where
  "process_hint_request env hs =
     (case get_hint (api_key hs) (api_provider hs) (hint_source env) of
        Inl e \<Rightarrow> processing_error hs []
      | Inr reply \<Rightarrow>
          let is_error = (startswith reply ''Error:'' \<or> startswith reply ''API Error:'')
          in if is_error
             then (hs\<lparr>processing := False\<rparr>,
                   show_message NotificationError @ [LogUsage ''API_ERROR'' False])
             else
               let hs1 = hs\<lparr>rate_limiter := record_request (record_today env) (rate_limiter hs)\<rparr>
               in (case rendered env of
                    None \<Rightarrow> processing_error hs1 []
                  | Some hint_path \<Rightarrow>
                      if \<not> archived env then processing_error hs1 []
                      else
                        let hs2 = hs1\<lparr>current_hint_path := Some hint_path, hint_ready := True,
                                       processing := False\<rparr>
                        in (hs2\<lparr>rate_limiter :=
                                  snd (get_usage_stats (stats_today env) (rate_limiter hs2))\<rparr>,
                            [LogUsage ''HINT_GENERATED'' True] @ show_message NotificationReady)))"


text \<open>A daemon with a hint ready, and a hint source that answers.\<close>

definition ready_system :: hint_system where
  "ready_system =
     \<lparr>processing = False, hint_ready = True, current_hint_path = Some ''/h/current-hint.png'',
      rate_limiter = full_month_limiter, display_method = ''direct_fb'', savestate_slot = Some 9,
      api_key = ''key'', api_provider = ''anthropic''\<rparr>"

definition working_source :: hint_source_env where
  "working_source =
     \<lparr>screenshot_readable = True, prompt_formatted = True,
      anthropic_reply = Response (Some [Some ''Try the left door.'']),
      openai_reply = Response (Some [MessageContent ''Try the left door.''])\<rparr>"

text \<open>
  A request on a new day, a daemon in the middle of a request, and a background thread whose
  hint source answers with a hint that happens to begin with \<open>Error:\<close>.
\<close>

definition stale_request :: request_env where
  "stale_request =
     \<lparr>request_today = ''2024-02-01'', status_playing = True, status_paused = False,
      captured = Some ''/s/shot.png'', parsed_system = ''SNES'', parsed_game = ''Game''\<rparr>"

definition busy_system :: hint_system where
  "busy_system = ready_system\<lparr>processing := True, hint_ready := False, current_hint_path := None\<rparr>"

definition prefixed_hint_run :: process_env where
  "prefixed_hint_run =
     \<lparr>hint_source = working_source\<lparr>anthropic_reply :=
        Response (Some [Some ''Error: 404 is the door code, enter it on the keypad.''])\<rparr>,
      record_today = ''2024-02-01'', rendered = Some ''/h/current-hint.png'', archived = True,
      stats_today = ''2024-02-01''\<rparr>"

section \<open>Properties of the RateLimiter\<close>

lemma reset_fields:
  "daily_limit (reset_if_new_day today rl) = daily_limit rl"
  "disk_ok (reset_if_new_day today rl) = disk_ok rl"
  "date (usage_data (reset_if_new_day today rl)) = Some today"
  by (simp_all add: reset_if_new_day_def save_usage_def Let_def)

lemma reset_count:
  "get_count (usage_data (reset_if_new_day today rl)) =
     (if date (usage_data rl) = Some today then get_count (usage_data rl) else 0)"
  by (simp add: reset_if_new_day_def save_usage_def Let_def get_count_def)

lemma reset_same_day:
  "date (usage_data rl) = Some today \<Longrightarrow> reset_if_new_day today rl = rl"
  by (simp add: reset_if_new_day_def)

lemma record_request_fields:
  "daily_limit (record_request today rl) = daily_limit rl"
  "disk_ok (record_request today rl) = disk_ok rl"
  "date (usage_data (record_request today rl)) = Some today"
  "get_count (usage_data (record_request today rl)) =
     get_count (usage_data (reset_if_new_day today rl)) + 1"
  by (simp_all add: record_request_def save_usage_def Let_def reset_fields get_count_def)

lemma record_requests_same_day:
  "date (usage_data rl) = Some today \<Longrightarrow>
     daily_limit (record_requests n today rl) = daily_limit rl \<and>
     date (usage_data (record_requests n today rl)) = Some today \<and>
     get_count (usage_data (record_requests n today rl)) = get_count (usage_data rl) + int n"
proof (induction n arbitrary: rl)
  case 0
  then show ?case by simp
next
  case (Suc n)
  have d: "date (usage_data (record_request today rl)) = Some today"
    by (rule record_request_fields)
  show ?case
    using Suc.IH [OF d] Suc.prems
    by (simp add: record_request_fields reset_same_day)
qed

lemma record_requests_count:
  "0 < n \<Longrightarrow>
     daily_limit (record_requests n today rl) = daily_limit rl \<and>
     date (usage_data (record_requests n today rl)) = Some today \<and>
     get_count (usage_data (record_requests n today rl)) =
       get_count (usage_data (reset_if_new_day today rl)) + int n"
proof (cases n)
  case 0
  assume "0 < n"
  with 0 show ?thesis by simp
next
  case (Suc m)
  have d: "date (usage_data (record_request today rl)) = Some today"
    by (rule record_request_fields)
  show ?thesis
    using record_requests_same_day [OF d, of m] Suc
    by (simp add: record_request_fields)
qed

lemma can_make_request_same_day:
  "0 < daily_limit rl \<Longrightarrow> date (usage_data rl) = Some today \<Longrightarrow>
     can_make_request today rl =
       ((get_count (usage_data rl) < daily_limit rl, get_count (usage_data rl), daily_limit rl), rl)"
  by (simp add: can_make_request_def reset_same_day Let_def)

lemma last_n_append_one:
  "length (last_n 30 (h @ [e])) \<le> 30 \<and> last (last_n 30 (h @ [e])) = e \<and>
   (length h < 30 \<longrightarrow> last_n 30 (h @ [e]) = h @ [e]) \<and>
   (30 \<le> length h \<longrightarrow> last_n 30 (h @ [e]) = drop (length h - 29) h @ [e])"
  by (auto simp: last_n_def)

text \<open>
  Claim C3, as stated: for every stored usage state whose date differs from today, the
  rollover resets the count to 0, sets the date to today and appends the prior day's
  \<open>{date, count}\<close> entry to the history, capped to the 30 most recent entries.
  The statement fails for a prior day without requests: with the stored date
  \<open>2024-01-01\<close>, the stored count 0 and an empty history, the rollover on \<open>2024-01-02\<close>
  leaves the history empty; the entry \<open>{2024-01-01, 0}\<close> is not appended.
\<close>

theorem rollover_appends_counterexample:
  "date (usage_data \<lparr>daily_limit = 10,
       usage_data = \<lparr>date = Some ''2024-01-01'', count = Some 0, history = Some []\<rparr>,
       usage_file = None, disk_ok = True\<rparr>) \<noteq> Some ''2024-01-02'' \<and>
   history (usage_data (record_request ''2024-01-02'' \<lparr>daily_limit = 10,
       usage_data = \<lparr>date = Some ''2024-01-01'', count = Some 0, history = Some []\<rparr>,
       usage_file = None, disk_ok = True\<rparr>))
     \<noteq> Some (last_n 30 ([] @ [\<lparr>entry_date = ''2024-01-01'', entry_count = 0\<rparr>]))"
  by (simp add: record_request_def reset_if_new_day_def save_usage_def date_truthy_def
      get_count_def get_history_def last_n_def Let_def)

text \<open>
  Claim C3, amended: for every stored usage state whose date differs from today, the
  rollover of \<open>record_request\<close> and \<open>get_usage_stats\<close>, and of \<open>can_make_request\<close> under a
  positive daily limit, resets the count to 0 and sets the date to today. It appends the
  prior day's \<open>{date, count}\<close> entry to the history, and keeps the 30 most recent entries,
  only when the stored date is a non-empty string and the stored count is positive;
  otherwise the history is left as it is. When the entry is appended the new history has at
  most 30 entries and ends with it, and a history that already had 30 or more entries
  loses its oldest ones. With a daily limit of 0 or less \<open>can_make_request\<close> performs
  no rollover.
\<close>

theorem reset_if_new_day_rollover:
  assumes "date (usage_data rl) \<noteq> Some today"
  shows "let ud = usage_data rl;
             prior = \<lparr>entry_date = the (date ud), entry_count = get_count ud\<rparr>;
             rolled = ud\<lparr>date := Some today, count := Some 0,
                        history := (if date_truthy ud \<and> 0 < get_count ud
                                    then Some (last_n 30 (get_history ud @ [prior]))
                                    else history ud)\<rparr>
         in usage_data (reset_if_new_day today rl) = rolled \<and>
            usage_data (snd (get_usage_stats today rl)) = rolled \<and>
            usage_data (record_request today rl) = rolled\<lparr>count := Some 1\<rparr> \<and>
            usage_data (snd (can_make_request today rl)) = (if 0 < daily_limit rl then rolled else ud) \<and>
            length (last_n 30 (get_history ud @ [prior])) \<le> 30 \<and>
            last (last_n 30 (get_history ud @ [prior])) = prior \<and>
            (30 \<le> length (get_history ud) \<longrightarrow>
               last_n 30 (get_history ud @ [prior]) = drop (length (get_history ud) - 29) (get_history ud) @ [prior])"
  using assms last_n_append_one [of "get_history (usage_data rl)"]
  by (simp add: reset_if_new_day_def save_usage_def Let_def
      record_request_def get_usage_stats_def can_make_request_def get_count_def)

theorem reset_if_new_day_rollover_witness:
  "date (usage_data full_month_limiter) \<noteq> Some ''2024-02-01'' \<and>
   30 \<le> length (get_history (usage_data full_month_limiter)) \<and>
   usage_data (reset_if_new_day ''2024-02-01'' full_month_limiter) =
     \<lparr>date = Some ''2024-02-01'', count = Some 0,
      history = Some (replicate 29 \<lparr>entry_date = ''2024-01-02'', entry_count = 1\<rparr>
                      @ [\<lparr>entry_date = ''2024-01-31'', entry_count = 4\<rparr>])\<rparr>"
proof -
  have h: "date (usage_data full_month_limiter) \<noteq> Some ''2024-02-01''"
    by (simp add: full_month_limiter_def)
  have l: "30 \<le> length (get_history (usage_data full_month_limiter))"
    by (simp add: full_month_limiter_def get_history_def)
  have "usage_data (reset_if_new_day ''2024-02-01'' full_month_limiter) =
     \<lparr>date = Some ''2024-02-01'', count = Some 0,
      history = Some (replicate 29 \<lparr>entry_date = ''2024-01-02'', entry_count = 1\<rparr>
                      @ [\<lparr>entry_date = ''2024-01-31'', entry_count = 4\<rparr>])\<rparr>"
    using reset_if_new_day_rollover [OF h] l
    by (simp add: Let_def)
       (simp add: full_month_limiter_def get_history_def get_count_def date_truthy_def)
  with h l show ?thesis by simp
qed

text \<open>
  Claim C4: with a daily limit of 0 or less \<open>can_make_request\<close> always returns
  \<open>(True, 0, 0)\<close> (and touches nothing). With a positive limit, \<open>allowed\<close> holds exactly
  when the current-day count (the count after the rollover check) is strictly less than
  the limit, and after exactly \<open>limit\<close> calls of \<open>record_request\<close> on one day
  \<open>can_make_request\<close> on that day returns \<open>allowed = False\<close>. The count a day starts with
  is a non-negative integer, as the data model has it.
\<close>

theorem can_make_request_after_limit:
  "(daily_limit rl \<le> 0 \<longrightarrow> can_make_request today rl = ((True, 0, 0), rl)) \<and>
   (0 < daily_limit rl \<longrightarrow>
      fst (fst (can_make_request today rl)) =
        (get_count (usage_data (reset_if_new_day today rl)) < daily_limit rl)) \<and>
   (0 < daily_limit rl \<and> 0 \<le> get_count (usage_data (reset_if_new_day today rl)) \<longrightarrow>
      fst (can_make_request today (record_requests (nat (daily_limit rl)) today rl)) =
        (False, get_count (usage_data (reset_if_new_day today rl)) + daily_limit rl, daily_limit rl))"
proof (intro conjI impI)
  assume "daily_limit rl \<le> 0"
  then show "can_make_request today rl = ((True, 0, 0), rl)"
    by (simp add: can_make_request_def)
next
  assume "0 < daily_limit rl"
  then show "fst (fst (can_make_request today rl)) =
      (get_count (usage_data (reset_if_new_day today rl)) < daily_limit rl)"
    by (simp add: can_make_request_def Let_def reset_fields)
next
  assume a: "0 < daily_limit rl \<and> 0 \<le> get_count (usage_data (reset_if_new_day today rl))"
  let ?n = "nat (daily_limit rl)"
  let ?rl = "record_requests ?n today rl"
  from a have n: "0 < ?n" by simp
  note r = record_requests_count [OF n, of today rl]
  from r a have "0 < daily_limit ?rl" by simp
  moreover from r have "date (usage_data ?rl) = Some today" by simp
  ultimately have "can_make_request today ?rl =
      ((get_count (usage_data ?rl) < daily_limit ?rl, get_count (usage_data ?rl), daily_limit ?rl), ?rl)"
    by (rule can_make_request_same_day)
  with r a show "fst (can_make_request today ?rl) =
      (False, get_count (usage_data (reset_if_new_day today rl)) + daily_limit rl, daily_limit rl)"
    by simp
qed

theorem can_make_request_after_limit_witness:
  "daily_limit unlimited_limiter \<le> 0 \<and>
   can_make_request ''2024-02-01'' unlimited_limiter = ((True, 0, 0), unlimited_limiter) \<and>
   0 < daily_limit full_month_limiter \<and>
   0 \<le> get_count (usage_data (reset_if_new_day ''2024-02-01'' full_month_limiter)) \<and>
   fst (can_make_request ''2024-02-01''
          (record_requests (nat (daily_limit full_month_limiter)) ''2024-02-01'' full_month_limiter))
     = (False, 3, 3)"
  using can_make_request_after_limit [of unlimited_limiter "''2024-02-01''"]
    can_make_request_after_limit [of full_month_limiter "''2024-02-01''"]
  by (simp add: full_month_limiter_def unlimited_limiter_def reset_if_new_day_def Let_def
      save_usage_def get_count_def date_truthy_def)

text \<open>
  Claim C9: \<open>record_request\<close> never checks the limit. For every state it increments the
  current-day count (the count after the rollover check) by one and writes the usage data
  to the file (when the file can be written: \<open>_save\<close> swallows a failed write), also when
  the count already equals or exceeds a positive daily limit. The count then grows beyond
  the limit with every further call, and \<open>can_make_request\<close> keeps reporting
  \<open>allowed = False\<close>.
\<close>

theorem record_request_never_checks_limit:
  "get_count (usage_data (record_request today rl)) =
     get_count (usage_data (reset_if_new_day today rl)) + 1 \<and>
   usage_file (record_request today rl) =
     (if disk_ok rl then Some (usage_data (record_request today rl)) else usage_file rl) \<and>
   (0 < daily_limit rl \<and> daily_limit rl \<le> get_count (usage_data (reset_if_new_day today rl)) \<longrightarrow>
      fst (can_make_request today (record_requests (Suc n) today rl)) =
        (False, get_count (usage_data (reset_if_new_day today rl)) + 1 + int n, daily_limit rl))"
proof (intro conjI impI)
  show "get_count (usage_data (record_request today rl)) =
     get_count (usage_data (reset_if_new_day today rl)) + 1"
    by (rule record_request_fields)
next
  show "usage_file (record_request today rl) =
     (if disk_ok rl then Some (usage_data (record_request today rl)) else usage_file rl)"
    by (simp add: record_request_def reset_if_new_day_def save_usage_def Let_def)
next
  assume a: "0 < daily_limit rl \<and> daily_limit rl \<le> get_count (usage_data (reset_if_new_day today rl))"
  let ?rl = "record_requests (Suc n) today rl"
  have n: "0 < Suc n" by simp
  note r = record_requests_count [OF n, of today rl]
  from r a have "0 < daily_limit ?rl" by simp
  moreover from r have "date (usage_data ?rl) = Some today" by simp
  ultimately have "can_make_request today ?rl =
      ((get_count (usage_data ?rl) < daily_limit ?rl, get_count (usage_data ?rl), daily_limit ?rl), ?rl)"
    by (rule can_make_request_same_day)
  with r a show "fst (can_make_request today ?rl) =
      (False, get_count (usage_data (reset_if_new_day today rl)) + 1 + int n, daily_limit rl)"
    by simp
qed

theorem record_request_never_checks_limit_witness:
  "0 < daily_limit full_month_limiter \<and>
   daily_limit full_month_limiter \<le> get_count (usage_data (reset_if_new_day ''2024-01-31'' full_month_limiter)) \<and>
   fst (can_make_request ''2024-01-31'' (record_requests (Suc 1) ''2024-01-31'' full_month_limiter))
     = (False, 6, 3)"
  using record_request_never_checks_limit [of "''2024-01-31''" full_month_limiter 1]
  by (simp add: full_month_limiter_def reset_if_new_day_def Let_def get_count_def)

section \<open>Properties of the pixel encoding\<close>

lemma uint_rgb565_word: "uint (rgb565_word p) = rgb565_pixel p"
proof (cases p)
  case (fields r g b)
  have "uint (push_bit 11 (ucast (drop_bit 3 r) :: 16 word) OR push_bit 5 (ucast (drop_bit 2 g)) OR ucast (drop_bit 3 b)) =
      push_bit 11 (drop_bit 3 (uint r)) OR push_bit 5 (drop_bit 2 (uint g)) OR drop_bit 3 (uint b)"
    by (rule bit_eqI) (auto simp add: bit_simps dest: bit_imp_le_length)
  with fields show ?thesis
    by (simp add: rgb565_word_def rgb565_pixel_def)
qed

lemma pack_H_uint: "pack_H (uint (w :: 16 word)) = Some (little_endian16 w)"
proof -
  have r: "0 \<le> uint w \<and> uint w \<le> 65535"
    using uint_lt2p [of w] by simp
  have lo: "(word_of_int (uint w mod 256) :: byte) = ucast w"
    by (rule bit_word_eqI) (auto simp add: bit_simps  simp flip: take_bit_eq_mod [where n = 8, simplified])
  have hi: "(word_of_int (uint w div 256) :: byte) = ucast (drop_bit 8 w)"
    by (rule bit_word_eqI) (auto simp add: bit_simps  simp flip: drop_bit_eq_div [where n = 8, simplified])
  show ?thesis using r by (simp add: pack_H_def little_endian16_def lo hi)
qed

lemma pack_H_rgb565_pixel: "pack_H (rgb565_pixel p) = Some (little_endian16 (rgb565_word p))"
  using pack_H_uint [of "rgb565_word p"] by (simp add: uint_rgb565_word)

lemma rgb565_loop_eq:
  "rgb565_loop pixels raw = Some (raw @ map (\<lambda>p. little_endian16 (rgb565_word p)) pixels)"
  by (induction pixels arbitrary: raw) (simp_all add: pack_H_rgb565_pixel)

text \<open>
  Claim C8: for every RGB image the 16-bpp encoder \<open>_convert_to_rgb565\<close> succeeds and emits,
  pixel by pixel in image order, the two bytes (low byte first) of the 16-bit word
  \<open>((r >> 3) << 11) | ((g >> 2) << 5) | (b >> 3)\<close>: the integer the code computes is the value
  of that word, so \<open>struct.pack\<close> never fails and the output has two bytes for each pixel.
  In particular the 2 by 1 image with the pixels \<open>(255, 0, 0)\<close> and \<open>(0, 255, 0)\<close> encodes
  to the bytes of \<open>0xF800\<close> then \<open>0x07E0\<close>, little-endian.
\<close>

theorem convert_to_rgb565_encoding:
  "convert_to_rgb565 pixels = Some (rgb565_spec pixels) \<and>
   uint (rgb565_word p) = rgb565_pixel p \<and>
   length (rgb565_spec pixels) = 2 * length pixels \<and>
   rgb565_word (255, 0, 0) = 0xF800 \<and> rgb565_word (0, 255, 0) = 0x07E0 \<and>
   convert_to_rgb565 [(255, 0, 0), (0, 255, 0)] = Some [0x00, 0xF8, 0xE0, 0x07]"
proof (intro conjI)
  show "convert_to_rgb565 pixels = Some (rgb565_spec pixels)"
    by (simp add: convert_to_rgb565_def rgb565_loop_eq rgb565_spec_def)
  show "uint (rgb565_word p) = rgb565_pixel p"
    by (rule uint_rgb565_word)
  show "length (rgb565_spec pixels) = 2 * length pixels"
    by (induction pixels) (simp_all add: rgb565_spec_def little_endian16_def)
  show "rgb565_word (255, 0, 0) = 0xF800" and "rgb565_word (0, 255, 0) = 0x07E0"
    by (simp_all add: rgb565_word_def)
  show "convert_to_rgb565 [(255, 0, 0), (0, 255, 0)] = Some [0x00, 0xF8, 0xE0, 0x07]"
    by (simp add: convert_to_rgb565_def pack_H_def rgb565_pixel_def)
qed

section \<open>Properties of the HintViewer\<close>


lemma pause_sends_only: "Run c \<notin> set (snd (show_retroarch_pause env p))"
  by (auto simp: show_retroarch_pause_def pause_def show_message_def)

lemma set_fall_back: "set (snd (fall_back done env p)) = set done \<union> set (snd (show_retroarch_pause env p))"
  by (simp add: fall_back_def)














text \<open>
  The paths of \<open>_show_direct_fb\<close> that return the fallback from inside step 5 or step 6
  (unsupported depth, failed preparation, failed write) never send the resume signal,
  whatever the environment does.
\<close>

lemma show_direct_fb_fallback_never_resumes:
  assumes "fb_props env = Some (w, h, bpp)"
    and "(\<forall>raw. prepare_image env bpp \<noteq> Prepared raw) \<or> fb_write env \<noteq> Written"
  shows "Run pkill_CONT \<notin> set (snd (show_direct_fb env p))"
  using assms
  by (auto simp: show_direct_fb_def Let_def set_fall_back pause_sends_only read_current_vt_def
      pkill_CONT_def pkill_STOP_def chvt_def
      split: prepared.splits fb_write_result.splits fgconsole_result.splits if_splits)

text \<open>
  Claim C1 says that whenever \<open>_show_direct_fb\<close> has sent the stop signal, the resume signal
  is sent and the recorded virtual terminal is restored before the function returns, on
  every exit path. The code does not do so on the paths that delegate to the fallback from
  inside the function: with a frame buffer whose device cannot be opened for writing
  (\<open>PermissionError\<close>), the emulator is stopped and the console switched from terminal 2 to
  terminal 1, then the fallback runs and the function returns \<open>True\<close>; neither
  \<open>pkill -CONT retroarch\<close> nor \<open>chvt 2\<close> is ever run.
\<close>

theorem direct_fb_write_denied_leaves_emulator_stopped:
  "show_direct_fb (working_env\<lparr>fb_write := PermissionDenied\<rparr>) ''/h/current-hint.png'' =
     (Inr True,
      [Run [''fgconsole''], Run [''pkill'', ''-STOP'', ''retroarch''], Sleep 300,
       Run [''chvt'', ''1''], Sleep 500,
       Send PAUSE_TOGGLE, Send (SHOW_MSG (Text ''SNES - Game'')), Sleep 4000,
       Send (SHOW_MSG (Text ''Press Start to unpause and continue'')), Sleep 2000]) \<and>
   Run [''pkill'', ''-STOP'', ''retroarch'']
     \<in> set (snd (show_direct_fb (working_env\<lparr>fb_write := PermissionDenied\<rparr>) ''/h/current-hint.png'')) \<and>
   Run [''pkill'', ''-CONT'', ''retroarch'']
     \<notin> set (snd (show_direct_fb (working_env\<lparr>fb_write := PermissionDenied\<rparr>) ''/h/current-hint.png'')) \<and>
   Run [''chvt'', ''2'']
     \<notin> set (snd (show_direct_fb (working_env\<lparr>fb_write := PermissionDenied\<rparr>) ''/h/current-hint.png''))"
  by (simp add: show_direct_fb_def working_env_def read_current_vt_def prepare_image_def
      encode_bgra_def Let_def fall_back_def show_retroarch_pause_def pause_def show_message_def
      pkill_STOP_def pkill_CONT_def chvt_def)



section \<open>Properties of the HotkeyListener\<close>

text \<open>
  Claim C5: whenever \<open>_check_combos\<close> runs with at least one configured combo contained in
  the pressed set, it clears the pressed set first and then starts exactly one thread, for
  the request action when the request combo is satisfied (also when the view combo is
  satisfied too) and for the view action otherwise. Every press and every release of a
  configured button runs \<open>_check_combos\<close> on the pressed set after the change.
\<close>

theorem check_combos_fires_once:
  assumes "request_combo hl \<subseteq> pressed_keys hl \<or> view_combo hl \<subseteq> pressed_keys hl"
  shows "check_combos hl =
           (hl\<lparr>pressed_keys := {}\<rparr>,
            [ClearPressedKeys,
             StartThread (if request_combo hl \<subseteq> pressed_keys hl then OnRequest else OnView)]) \<and>
         key_event (Some b) 1 l = check_combos (l\<lparr>pressed_keys := insert b (pressed_keys l)\<rparr>) \<and>
         key_event (Some b) 0 l = check_combos (l\<lparr>pressed_keys := pressed_keys l - {b}\<rparr>)"
  using assms by (auto simp: check_combos_def key_event_def)

theorem check_combos_fires_once_witness:
  "(request_combo \<lparr>request_combo = {''BTN_SELECT'', ''BTN_TL''}, view_combo = {''BTN_SELECT''},
        pressed_keys = {''BTN_SELECT'', ''BTN_TL''}\<rparr>
      \<subseteq> pressed_keys \<lparr>request_combo = {''BTN_SELECT'', ''BTN_TL''}, view_combo = {''BTN_SELECT''},
        pressed_keys = {''BTN_SELECT'', ''BTN_TL''}\<rparr>) \<and>
   (view_combo \<lparr>request_combo = {''BTN_SELECT'', ''BTN_TL''}, view_combo = {''BTN_SELECT''},
        pressed_keys = {''BTN_SELECT'', ''BTN_TL''}\<rparr>
      \<subseteq> pressed_keys \<lparr>request_combo = {''BTN_SELECT'', ''BTN_TL''}, view_combo = {''BTN_SELECT''},
        pressed_keys = {''BTN_SELECT'', ''BTN_TL''}\<rparr>) \<and>
   check_combos \<lparr>request_combo = {''BTN_SELECT'', ''BTN_TL''}, view_combo = {''BTN_SELECT''},
        pressed_keys = {''BTN_SELECT'', ''BTN_TL''}\<rparr> =
     (\<lparr>request_combo = {''BTN_SELECT'', ''BTN_TL''}, view_combo = {''BTN_SELECT''}, pressed_keys = {}\<rparr>,
      [ClearPressedKeys, StartThread OnRequest])"
  using check_combos_fires_once [of "\<lparr>request_combo = {''BTN_SELECT'', ''BTN_TL''},
      view_combo = {''BTN_SELECT''}, pressed_keys = {''BTN_SELECT'', ''BTN_TL''}\<rparr>"]
  by simp

section \<open>Properties of the HintSystem\<close>

text \<open>
  Claim C7: in every state in which the processing flag is set, \<open>on_request_hint\<close> only
  shows the notice "Already generating hint..." and returns: no operation of the
  RateLimiter runs, and the whole state, with the limiter's usage data (date, count,
  history) and its file, is as before.
\<close>

theorem on_request_hint_rejects_while_processing:
  assumes "processing hs"
  shows "on_request_hint env hs = (hs, [Send (SHOW_MSG (Text ''Already generating hint...''))]) \<and>
         usage_data (rate_limiter (fst (on_request_hint env hs))) = usage_data (rate_limiter hs) \<and>
         usage_file (rate_limiter (fst (on_request_hint env hs))) = usage_file (rate_limiter hs)"
  using assms by (simp add: on_request_hint_def show_message_def)

theorem on_request_hint_rejects_while_processing_witness:
  "processing (ready_system\<lparr>processing := True\<rparr>) \<and>
   on_request_hint stale_request (ready_system\<lparr>processing := True\<rparr>) =
     (ready_system\<lparr>processing := True\<rparr>, [Send (SHOW_MSG (Text ''Already generating hint...''))]) \<and>
   usage_data (rate_limiter (fst (on_request_hint stale_request ready_system))) \<noteq>
     usage_data (rate_limiter ready_system)"
proof -
  have p: "processing (ready_system\<lparr>processing := True\<rparr>)" by simp
  have "usage_data (rate_limiter (fst (on_request_hint stale_request ready_system)))
      \<noteq> usage_data (rate_limiter ready_system)"
    by (simp add: on_request_hint_def stale_request_def ready_system_def full_month_limiter_def
        can_make_request_def reset_if_new_day_def save_usage_def Let_def get_count_def
        date_truthy_def)
  with p on_request_hint_rejects_while_processing [OF p, of stale_request]
  show ?thesis by simp
qed




section \<open>Properties of the hint source\<close>

lemma call_anthropic_strings:
  "call_anthropic env = Inr s \<Longrightarrow>
     startswith s ''Error:'' \<or> startswith s ''API Error:'' \<or> s = ''No hint generated.'' \<or>
     (\<exists>bs. anthropic_reply env = Response (Some (Some s # bs)))"
  by (auto simp: call_anthropic_def startswith_def
      split: http_result.splits option.splits list.splits if_splits)

lemma call_openai_strings:
  "call_openai env = Inr s \<Longrightarrow>
     startswith s ''Error:'' \<or> startswith s ''API Error:'' \<or> s = ''No hint generated.'' \<or>
     (\<exists>cs. openai_reply env = Response (Some (MessageContent s # cs)))"
  by (auto simp: call_openai_def startswith_def
      split: http_result.splits option.splits list.splits openai_choice.splits if_splits)

lemma get_hint_strings:
  assumes "get_hint k pr env = Inr s"
  shows "startswith s ''Error:'' \<or> startswith s ''API Error:'' \<or> s = ''No hint generated.'' \<or>
     (pr = ''anthropic'' \<and> (\<exists>bs. anthropic_reply env = Response (Some (Some s # bs)))) \<or>
     (pr = ''openai'' \<and> (\<exists>cs. openai_reply env = Response (Some (MessageContent s # cs))))"
proof (cases "k = [] \<or> (pr \<noteq> ''anthropic'' \<and> pr \<noteq> ''openai'')")
  case True
  with assms have "startswith s ''Error:''"
    by (auto simp: get_hint_def startswith_def split: if_splits)
  then show ?thesis by simp
next
  case False
  show ?thesis
  proof (cases "pr = ''anthropic''")
    case True
    with assms False have "call_anthropic env = Inr s"
      by (simp add: get_hint_def split: if_splits)
    from call_anthropic_strings [OF this] True show ?thesis by blast
  next
    case no: False
    with False have o: "pr = ''openai''" by simp
    with assms False have "call_openai env = Inr s"
      by (simp add: get_hint_def split: if_splits)
    from call_openai_strings [OF this] o show ?thesis by blast
  qed
qed

lemma call_anthropic_raises:
  "(\<exists>e. call_anthropic env = Inl e) = (\<exists>c. anthropic_reply env = HTTPError c False)"
  by (auto simp: call_anthropic_def split: http_result.splits option.splits list.splits)

lemma call_openai_raises:
  "(\<exists>e. call_openai env = Inl e) = (\<exists>c. openai_reply env = HTTPError c False)"
  by (auto simp: call_openai_def split: http_result.splits option.splits list.splits openai_choice.splits)

lemma get_hint_raises:
  "(\<exists>e. get_hint k pr env = Inl e) =
     (k \<noteq> [] \<and> (\<not> screenshot_readable env \<or> \<not> prompt_formatted env \<or>
        (pr = ''anthropic'' \<and> (\<exists>c. anthropic_reply env = HTTPError c False)) \<or>
        (pr = ''openai'' \<and> (\<exists>c. openai_reply env = HTTPError c False))))"
  using call_anthropic_raises [of env] call_openai_raises [of env]
  by (auto simp: get_hint_def)

lemma process_error_reply:
  assumes "get_hint (api_key hs) (api_provider hs) (hint_source penv) = Inr s"
    and "startswith s ''Error:'' \<or> startswith s ''API Error:''"
  shows "process_hint_request penv hs =
     (hs\<lparr>processing := False\<rparr>, [Send (SHOW_MSG NotificationError), LogUsage ''API_ERROR'' False])"
  using assms by (simp add: process_hint_request_def show_message_def)

lemma process_other_reply:
  assumes "get_hint (api_key hs) (api_provider hs) (hint_source penv) = Inr s"
    and "\<not> (startswith s ''Error:'' \<or> startswith s ''API Error:'')"
  shows "LogUsage ''API_ERROR'' False \<notin> set (snd (process_hint_request penv hs))"
  using assms
  by (simp add: process_hint_request_def show_message_def processing_error_def Let_def
      split: option.split)

lemma process_raised:
  assumes "get_hint (api_key hs) (api_provider hs) (hint_source penv) = Inl e"
  shows "process_hint_request penv hs =
     (hs\<lparr>processing := False\<rparr>, [LogUsage ''PROCESSING_ERROR'' False, Send (SHOW_MSG NotificationError)])"
  using assms by (simp add: process_hint_request_def show_message_def processing_error_def)

text \<open>
  Claim C10, as stated: every failure path of \<open>AIClient.get_hint\<close> (missing key, unknown
  provider, HTTP error, any exception) returns a string beginning with \<open>Error:\<close> or
  \<open>API Error:\<close>. It fails when the screenshot cannot be read: with a key configured,
  \<open>open(screenshot_path)\<close> stands outside any \<open>try\<close>, and \<open>get_hint\<close> raises instead of
  returning a string.
\<close>

theorem get_hint_raises_counterexample:
  "get_hint ''key'' ''anthropic'' (working_source\<lparr>screenshot_readable := False\<rparr>) = Inl FileNotFoundError"
  by (simp add: get_hint_def working_source_def)

lemma startswith_append: "startswith (p @ s) p"
  by (simp add: startswith_def)

lemma get_hint_in_band:
  assumes "k \<noteq> []" and "screenshot_readable env" and "prompt_formatted env"
  shows "pr \<noteq> ''anthropic'' \<and> pr \<noteq> ''openai'' \<Longrightarrow>
           get_hint k pr env = Inr (''Error: Unknown API provider: '' @ pr)"
    and "anthropic_reply env = HTTPError c True \<Longrightarrow>
           get_hint k ''anthropic'' env = Inr (''API Error: '' @ c)"
    and "anthropic_reply env = RequestRaised e \<Longrightarrow>
           get_hint k ''anthropic'' env = Inr (''Error: '' @ e)"
    and "openai_reply env = HTTPError c True \<Longrightarrow>
           get_hint k ''openai'' env = Inr (''API Error: '' @ c)"
    and "openai_reply env = RequestRaised e \<Longrightarrow>
           get_hint k ''openai'' env = Inr (''Error: '' @ e)"
    and "openai_reply env = Response (Some (MissingKey e # cs)) \<Longrightarrow>
           get_hint k ''openai'' env = Inr (''Error: '' @ e)"
    and "anthropic_reply env = Response (Some (Some s # bs)) \<Longrightarrow>
           get_hint k ''anthropic'' env = Inr s"
    and "openai_reply env = Response (Some (MessageContent s # cs)) \<Longrightarrow>
           get_hint k ''openai'' env = Inr s"
  using assms by (simp_all add: get_hint_def call_anthropic_def call_openai_def)

lemma process_classifies:
  assumes g: "get_hint (api_key hs) (api_provider hs) (hint_source penv) = Inr t"
  shows "(LogUsage ''API_ERROR'' False \<in> set (snd (process_hint_request penv hs))) =
        (startswith t ''Error:'' \<or> startswith t ''API Error:'')"
proof (cases "startswith t ''Error:'' \<or> startswith t ''API Error:''")
  case True
  from process_error_reply [OF g True] True show ?thesis by simp
next
  case False
  from process_other_reply [OF g False] False show ?thesis by simp
qed

text \<open>
  Claim C10, amended: \<open>get_hint\<close> signals failure in-band by a string prefix on these
  paths: the missing key, the unknown provider, an HTTP error (whose body can be decoded)
  and any exception raised inside the provider call, a missing key of the OpenAI result
  among them; each returns a string that begins with \<open>Error:\<close> or \<open>API Error:\<close>, and every
  string \<open>get_hint\<close> returns that is neither the text of a provider's response nor the
  default "No hint generated." begins so. The text of a response is returned as it is.
  \<open>get_hint\<close> raises instead, exactly when a key is configured and the screenshot cannot be
  read, the prompt cannot be formatted, or the body of an HTTP error cannot be decoded.
  The background thread classifies a returned text as failed (usage event \<open>API_ERROR\<close>)
  exactly when it starts with one of the two prefixes, and then only shows the error
  notice and clears the processing flag: a generated hint that begins with such a prefix
  is never marked ready. An exception of \<open>get_hint\<close> is handled by the thread's general
  handler (usage event \<open>PROCESSING_ERROR\<close>), which clears the processing flag as well.
\<close>

theorem hint_failure_in_band:
  "get_hint [] pr env = Inr ''Error: No API key configured. Edit config.json to add your API key.'' \<and>
   startswith ''Error: No API key configured. Edit config.json to add your API key.'' ''Error:'' \<and>
   (k \<noteq> [] \<and> screenshot_readable env \<and> prompt_formatted env \<longrightarrow>
      (pr \<noteq> ''anthropic'' \<and> pr \<noteq> ''openai'' \<longrightarrow>
         get_hint k pr env = Inr (''Error: Unknown API provider: '' @ pr)) \<and>
      (anthropic_reply env = HTTPError c True \<longrightarrow>
         get_hint k ''anthropic'' env = Inr (''API Error: '' @ c)) \<and>
      (anthropic_reply env = RequestRaised e \<longrightarrow>
         get_hint k ''anthropic'' env = Inr (''Error: '' @ e)) \<and>
      (openai_reply env = HTTPError c True \<longrightarrow>
         get_hint k ''openai'' env = Inr (''API Error: '' @ c)) \<and>
      (openai_reply env = RequestRaised e \<longrightarrow>
         get_hint k ''openai'' env = Inr (''Error: '' @ e)) \<and>
      (openai_reply env = Response (Some (MissingKey e # cs)) \<longrightarrow>
         get_hint k ''openai'' env = Inr (''Error: '' @ e)) \<and>
      (anthropic_reply env = Response (Some (Some s # bs)) \<longrightarrow>
         get_hint k ''anthropic'' env = Inr s) \<and>
      (openai_reply env = Response (Some (MessageContent s # cs)) \<longrightarrow>
         get_hint k ''openai'' env = Inr s)) \<and>
   startswith (''Error: Unknown API provider: '' @ pr) ''Error:'' \<and>
   startswith (''API Error: '' @ c) ''API Error:'' \<and>
   startswith (''Error: '' @ e) ''Error:'' \<and>
   (get_hint k pr env = Inr s \<longrightarrow>
      startswith s ''Error:'' \<or> startswith s ''API Error:'' \<or> s = ''No hint generated.'' \<or>
      (pr = ''anthropic'' \<and> (\<exists>bs. anthropic_reply env = Response (Some (Some s # bs)))) \<or>
      (pr = ''openai'' \<and> (\<exists>cs. openai_reply env = Response (Some (MessageContent s # cs))))) \<and>
   ((\<exists>x. get_hint k pr env = Inl x) =
      (k \<noteq> [] \<and> (\<not> screenshot_readable env \<or> \<not> prompt_formatted env \<or>
         (pr = ''anthropic'' \<and> (\<exists>c. anthropic_reply env = HTTPError c False)) \<or>
         (pr = ''openai'' \<and> (\<exists>c. openai_reply env = HTTPError c False))))) \<and>
   (get_hint (api_key hs) (api_provider hs) (hint_source penv) = Inr t \<longrightarrow>
      (LogUsage ''API_ERROR'' False \<in> set (snd (process_hint_request penv hs))) =
        (startswith t ''Error:'' \<or> startswith t ''API Error:'') \<and>
      (startswith t ''Error:'' \<or> startswith t ''API Error:'' \<longrightarrow>
         process_hint_request penv hs =
           (hs\<lparr>processing := False\<rparr>,
            [Send (SHOW_MSG NotificationError), LogUsage ''API_ERROR'' False]))) \<and>
   (get_hint (api_key hs) (api_provider hs) (hint_source penv) = Inl x \<longrightarrow>
      process_hint_request penv hs =
        (hs\<lparr>processing := False\<rparr>,
         [LogUsage ''PROCESSING_ERROR'' False, Send (SHOW_MSG NotificationError)]))"
proof -
  have nokey: "get_hint [] pr env =
      Inr ''Error: No API key configured. Edit config.json to add your API key.''"
    by (simp add: get_hint_def)
  have pre: "startswith ''Error: No API key configured. Edit config.json to add your API key.'' ''Error:''"
    "startswith (''Error: Unknown API provider: '' @ pr) ''Error:''"
    "startswith (''API Error: '' @ c) ''API Error:''"
    "startswith (''Error: '' @ e) ''Error:''"
    by (simp_all add: startswith_def)
  have inband: "k \<noteq> [] \<and> screenshot_readable env \<and> prompt_formatted env \<longrightarrow>
      (pr \<noteq> ''anthropic'' \<and> pr \<noteq> ''openai'' \<longrightarrow>
         get_hint k pr env = Inr (''Error: Unknown API provider: '' @ pr)) \<and>
      (anthropic_reply env = HTTPError c True \<longrightarrow>
         get_hint k ''anthropic'' env = Inr (''API Error: '' @ c)) \<and>
      (anthropic_reply env = RequestRaised e \<longrightarrow>
         get_hint k ''anthropic'' env = Inr (''Error: '' @ e)) \<and>
      (openai_reply env = HTTPError c True \<longrightarrow>
         get_hint k ''openai'' env = Inr (''API Error: '' @ c)) \<and>
      (openai_reply env = RequestRaised e \<longrightarrow>
         get_hint k ''openai'' env = Inr (''Error: '' @ e)) \<and>
      (openai_reply env = Response (Some (MissingKey e # cs)) \<longrightarrow>
         get_hint k ''openai'' env = Inr (''Error: '' @ e)) \<and>
      (anthropic_reply env = Response (Some (Some s # bs)) \<longrightarrow>
         get_hint k ''anthropic'' env = Inr s) \<and>
      (openai_reply env = Response (Some (MessageContent s # cs)) \<longrightarrow>
         get_hint k ''openai'' env = Inr s)"
    by (intro impI conjI; elim conjE; simp add: get_hint_in_band)
  have range: "get_hint k pr env = Inr s \<longrightarrow>
      startswith s ''Error:'' \<or> startswith s ''API Error:'' \<or> s = ''No hint generated.'' \<or>
      (pr = ''anthropic'' \<and> (\<exists>bs. anthropic_reply env = Response (Some (Some s # bs)))) \<or>
      (pr = ''openai'' \<and> (\<exists>cs. openai_reply env = Response (Some (MessageContent s # cs))))"
    by (rule impI) (rule get_hint_strings)
  have raises: "(\<exists>x. get_hint k pr env = Inl x) =
      (k \<noteq> [] \<and> (\<not> screenshot_readable env \<or> \<not> prompt_formatted env \<or>
         (pr = ''anthropic'' \<and> (\<exists>c. anthropic_reply env = HTTPError c False)) \<or>
         (pr = ''openai'' \<and> (\<exists>c. openai_reply env = HTTPError c False))))"
    by (rule get_hint_raises)
  have classify: "get_hint (api_key hs) (api_provider hs) (hint_source penv) = Inr t \<longrightarrow>
      (LogUsage ''API_ERROR'' False \<in> set (snd (process_hint_request penv hs))) =
        (startswith t ''Error:'' \<or> startswith t ''API Error:'') \<and>
      (startswith t ''Error:'' \<or> startswith t ''API Error:'' \<longrightarrow>
         process_hint_request penv hs =
           (hs\<lparr>processing := False\<rparr>,
            [Send (SHOW_MSG NotificationError), LogUsage ''API_ERROR'' False]))"
  proof (intro impI conjI)
    assume "get_hint (api_key hs) (api_provider hs) (hint_source penv) = Inr t"
    then show "(LogUsage ''API_ERROR'' False \<in> set (snd (process_hint_request penv hs))) =
        (startswith t ''Error:'' \<or> startswith t ''API Error:'')"
      by (rule process_classifies)
  next
    assume "get_hint (api_key hs) (api_provider hs) (hint_source penv) = Inr t"
      and "startswith t ''Error:'' \<or> startswith t ''API Error:''"
    then show "process_hint_request penv hs =
           (hs\<lparr>processing := False\<rparr>,
            [Send (SHOW_MSG NotificationError), LogUsage ''API_ERROR'' False])"
      by (rule process_error_reply)
  qed
  have raised: "get_hint (api_key hs) (api_provider hs) (hint_source penv) = Inl x \<longrightarrow>
      process_hint_request penv hs =
        (hs\<lparr>processing := False\<rparr>,
         [LogUsage ''PROCESSING_ERROR'' False, Send (SHOW_MSG NotificationError)])"
    by (rule impI) (rule process_raised)
  from nokey pre inband range raises classify raised show ?thesis
    by (intro conjI)
qed

theorem hint_failure_in_band_witness:
  "get_hint [] ''anthropic'' working_source =
     Inr ''Error: No API key configured. Edit config.json to add your API key.'' \<and>
   get_hint ''key'' ''gemini'' working_source = Inr ''Error: Unknown API provider: gemini'' \<and>
   startswith ''Error: Unknown API provider: gemini'' ''Error:'' \<and>
   get_hint ''key'' ''anthropic'' (working_source\<lparr>anthropic_reply := HTTPError ''401'' True\<rparr>) =
     Inr ''API Error: 401'' \<and>
   startswith ''API Error: 401'' ''API Error:'' \<and>
   get_hint ''key'' ''anthropic'' (working_source\<lparr>anthropic_reply := RequestRaised ''timed out''\<rparr>) =
     Inr ''Error: timed out'' \<and>
   startswith ''Error: timed out'' ''Error:'' \<and>
   get_hint ''key'' ''openai'' (working_source\<lparr>openai_reply := HTTPError ''500'' True\<rparr>) =
     Inr ''API Error: 500'' \<and>
   get_hint ''key'' ''openai'' (working_source\<lparr>openai_reply := RequestRaised ''timed out''\<rparr>) =
     Inr ''Error: timed out'' \<and>
   get_hint ''key'' ''openai'' (working_source\<lparr>openai_reply := Response (Some [MissingKey ''message''])\<rparr>) =
     Inr ''Error: message'' \<and>
   get_hint ''key'' ''openai'' working_source = Inr ''Try the left door.'' \<and>
   get_hint (api_key busy_system) (api_provider busy_system) (hint_source prefixed_hint_run) =
     Inr ''Error: 404 is the door code, enter it on the keypad.'' \<and>
   startswith ''Error: 404 is the door code, enter it on the keypad.'' ''Error:'' \<and>
   process_hint_request prefixed_hint_run busy_system =
     (busy_system\<lparr>processing := False\<rparr>,
      [Send (SHOW_MSG NotificationError), LogUsage ''API_ERROR'' False]) \<and>
   hint_ready (fst (process_hint_request prefixed_hint_run busy_system)) = False \<and>
   get_hint ''key'' ''anthropic'' (working_source\<lparr>prompt_formatted := False\<rparr>) = Inl KeyError \<and>
   process_hint_request (prefixed_hint_run\<lparr>hint_source := working_source\<lparr>prompt_formatted := False\<rparr>\<rparr>)
       busy_system =
     (busy_system\<lparr>processing := False\<rparr>,
      [LogUsage ''PROCESSING_ERROR'' False, Send (SHOW_MSG NotificationError)])"
proof -
  have ok: "screenshot_readable (working_source\<lparr>anthropic_reply := a\<rparr>)"
    "prompt_formatted (working_source\<lparr>anthropic_reply := a\<rparr>)"
    "screenshot_readable (working_source\<lparr>openai_reply := b\<rparr>)"
    "prompt_formatted (working_source\<lparr>openai_reply := b\<rparr>)"
    "screenshot_readable working_source" "prompt_formatted working_source"
    for a b
    by (simp_all add: working_source_def)
  have g1: "get_hint [] ''anthropic'' working_source =
     Inr ''Error: No API key configured. Edit config.json to add your API key.''"
    by (rule hint_failure_in_band [THEN conjunct1])
  have u: "get_hint ''key'' ''gemini'' working_source = Inr ''Error: Unknown API provider: gemini''"
    using hint_failure_in_band
      [where k = "''key''" and pr = "''gemini''" and env = working_source,
       THEN conjunct2, THEN conjunct2, THEN conjunct1] ok
    by simp
  have h1: "get_hint ''key'' ''anthropic'' (working_source\<lparr>anthropic_reply := HTTPError ''401'' True\<rparr>) =
     Inr ''API Error: 401''"
    using hint_failure_in_band
      [where k = "''key''" and c = "''401''"
        and env = "working_source\<lparr>anthropic_reply := HTTPError ''401'' True\<rparr>",
       THEN conjunct2, THEN conjunct2, THEN conjunct1] ok by simp
  have e1: "get_hint ''key'' ''anthropic'' (working_source\<lparr>anthropic_reply := RequestRaised ''timed out''\<rparr>) =
     Inr ''Error: timed out''"
    using hint_failure_in_band
      [where k = "''key''" and e = "''timed out''"
        and env = "working_source\<lparr>anthropic_reply := RequestRaised ''timed out''\<rparr>",
       THEN conjunct2, THEN conjunct2, THEN conjunct1] ok by simp
  have h2: "get_hint ''key'' ''openai'' (working_source\<lparr>openai_reply := HTTPError ''500'' True\<rparr>) =
     Inr ''API Error: 500''"
    using hint_failure_in_band
      [where k = "''key''" and c = "''500''"
        and env = "working_source\<lparr>openai_reply := HTTPError ''500'' True\<rparr>",
       THEN conjunct2, THEN conjunct2, THEN conjunct1] ok by simp
  have e2: "get_hint ''key'' ''openai'' (working_source\<lparr>openai_reply := RequestRaised ''timed out''\<rparr>) =
     Inr ''Error: timed out''"
    using hint_failure_in_band
      [where k = "''key''" and e = "''timed out''"
        and env = "working_source\<lparr>openai_reply := RequestRaised ''timed out''\<rparr>",
       THEN conjunct2, THEN conjunct2, THEN conjunct1] ok by simp
  have m2: "get_hint ''key'' ''openai''
      (working_source\<lparr>openai_reply := Response (Some [MissingKey ''message''])\<rparr>) = Inr ''Error: message''"
    using hint_failure_in_band
      [where k = "''key''" and e = "''message''" and cs = "[]"
        and env = "working_source\<lparr>openai_reply := Response (Some [MissingKey ''message''])\<rparr>",
       THEN conjunct2, THEN conjunct2, THEN conjunct1] ok
    by simp
  have r2: "get_hint ''key'' ''openai'' working_source = Inr ''Try the left door.''"
    using hint_failure_in_band
      [where k = "''key''" and s = "''Try the left door.''" and cs = "[]"
        and env = working_source,
       THEN conjunct2, THEN conjunct2, THEN conjunct1] ok
    by (simp add: working_source_def)
  have s: "startswith ''Error: Unknown API provider: gemini'' ''Error:''"
    "startswith ''API Error: 401'' ''API Error:''"
    "startswith ''Error: timed out'' ''Error:''"
    using hint_failure_in_band
      [where pr = "''gemini''",
       THEN conjunct2, THEN conjunct2, THEN conjunct2, THEN conjunct1] hint_failure_in_band
      [where c = "''401''",
       THEN conjunct2, THEN conjunct2, THEN conjunct2, THEN conjunct2, THEN conjunct1]
      hint_failure_in_band
      [where e = "''timed out''",
       THEN conjunct2, THEN conjunct2, THEN conjunct2, THEN conjunct2, THEN conjunct2,
       THEN conjunct1]
    by simp_all
  have g2: "get_hint (api_key busy_system) (api_provider busy_system) (hint_source prefixed_hint_run) =
     Inr ''Error: 404 is the door code, enter it on the keypad.''"
    by (simp add: get_hint_def busy_system_def ready_system_def prefixed_hint_run_def
        working_source_def call_anthropic_def)
  have g3: "get_hint (api_key busy_system) (api_provider busy_system)
      (hint_source (prefixed_hint_run\<lparr>hint_source := working_source\<lparr>prompt_formatted := False\<rparr>\<rparr>))
      = Inl KeyError"
    by (simp add: get_hint_def busy_system_def ready_system_def working_source_def)
  have s2: "startswith ''Error: 404 is the door code, enter it on the keypad.'' ''Error:''"
    by (simp add: startswith_def)
  from hint_failure_in_band
      [where hs = busy_system and penv = prefixed_hint_run
      and t = "''Error: 404 is the door code, enter it on the keypad.''",
       THEN conjunct2, THEN conjunct2, THEN conjunct2, THEN conjunct2, THEN conjunct2,
       THEN conjunct2, THEN conjunct2, THEN conjunct2, THEN conjunct1, rule_format, OF g2]
  have "startswith ''Error: 404 is the door code, enter it on the keypad.'' ''Error:'' \<or>
      startswith ''Error: 404 is the door code, enter it on the keypad.'' ''API Error:'' \<longrightarrow>
    process_hint_request prefixed_hint_run busy_system =
     (busy_system\<lparr>processing := False\<rparr>,
      [Send (SHOW_MSG NotificationError), LogUsage ''API_ERROR'' False])"
    by (rule conjunct2)
  with s2 have p2: "process_hint_request prefixed_hint_run busy_system =
     (busy_system\<lparr>processing := False\<rparr>,
      [Send (SHOW_MSG NotificationError), LogUsage ''API_ERROR'' False])"
    by (rule_tac mp) (assumption, rule disjI1)
  have p3: "process_hint_request (prefixed_hint_run\<lparr>hint_source := working_source\<lparr>prompt_formatted := False\<rparr>\<rparr>)
       busy_system =
     (busy_system\<lparr>processing := False\<rparr>,
      [LogUsage ''PROCESSING_ERROR'' False, Send (SHOW_MSG NotificationError)])"
    by (rule hint_failure_in_band
      [where hs = busy_system and x = KeyError,
       THEN conjunct2, THEN conjunct2, THEN conjunct2, THEN conjunct2, THEN conjunct2,
       THEN conjunct2, THEN conjunct2, THEN conjunct2, THEN conjunct2, rule_format, OF g3])
  have r: "hint_ready (fst (process_hint_request prefixed_hint_run busy_system)) = False"
    by (simp add: p2) (simp add: busy_system_def)
  have g4: "get_hint ''key'' ''anthropic'' (working_source\<lparr>prompt_formatted := False\<rparr>) = Inl KeyError"
    by (simp add: get_hint_def working_source_def)
  from g1 u s h1 e1 h2 e2 m2 r2 g2 s2 p2 r g4 p3 show ?thesis by (intro conjI)
qed

end
